theory Spec2Isabelle
  imports Complex_Main "HOL-Library.AList" "HOL-Library.Multiset"
begin

section \<open>JavaScript numbers\<close>

text \<open>
  Prices and the quantities derived from them are JavaScript numbers. A finite double is
  taken as the real number it denotes (no rounding, no overflow), next to the three special
  values \<open>NaN\<close>, \<open>-Infinity\<close> and \<open>Infinity\<close>. The two zeros are
  not told apart; the sign of a zero only shows in a division by zero, and both divisions
  of the tick path are guarded (\<open>oldPrice > 0\<close>, and a leader's change of at least
  \<open>MOVE_THRESHOLD\<close> in absolute value).
\<close>

datatype jsnum = NaN | NInf | Num real | PInf

text \<open>The relational operators: every comparison with \<open>NaN\<close> is false.\<close>

fun js_lt :: "jsnum \<Rightarrow> jsnum \<Rightarrow> bool" where
  "js_lt NaN b = False"
| "js_lt a NaN = False"
| "js_lt a NInf = False"
| "js_lt NInf b = True"
| "js_lt PInf b = False"
| "js_lt (Num a) PInf = True"
| "js_lt (Num a) (Num b) = (a < b)"

definition js_gt :: "jsnum \<Rightarrow> jsnum \<Rightarrow> bool" where
  "js_gt a b = js_lt b a"

definition js_ge :: "jsnum \<Rightarrow> jsnum \<Rightarrow> bool" where
  "js_ge a b = (a \<noteq> NaN \<and> b \<noteq> NaN \<and> \<not> js_lt a b)"

text \<open>\<open>Math.abs\<close>.\<close>

fun js_abs :: "jsnum \<Rightarrow> jsnum" where
  "js_abs NaN = NaN"
| "js_abs NInf = PInf"
| "js_abs PInf = PInf"
| "js_abs (Num a) = Num \<bar>a\<bar>"

fun js_neg :: "jsnum \<Rightarrow> jsnum" where
  "js_neg NaN = NaN"
| "js_neg NInf = PInf"
| "js_neg PInf = NInf"
| "js_neg (Num a) = Num (- a)"

fun js_add :: "jsnum \<Rightarrow> jsnum \<Rightarrow> jsnum" where
  "js_add NaN b = NaN"
| "js_add a NaN = NaN"
| "js_add PInf NInf = NaN"
| "js_add NInf PInf = NaN"
| "js_add PInf b = PInf"
| "js_add a PInf = PInf"
| "js_add NInf b = NInf"
| "js_add a NInf = NInf"
| "js_add (Num a) (Num b) = Num (a + b)"

definition js_sub :: "jsnum \<Rightarrow> jsnum \<Rightarrow> jsnum" where
  "js_sub a b = js_add a (js_neg b)"

text \<open>The sign of a number that is not \<open>NaN\<close>: \<open>-1\<close>, \<open>0\<close> or \<open>1\<close>.\<close>

fun js_sign :: "jsnum \<Rightarrow> int" where
  "js_sign NaN = 0"
| "js_sign NInf = - 1"
| "js_sign PInf = 1"
| "js_sign (Num a) = (if a < 0 then - 1 else if a = 0 then 0 else 1)"

definition js_inf :: "int \<Rightarrow> jsnum" where
  "js_inf s = (if s < 0 then NInf else PInf)"

fun js_mul :: "jsnum \<Rightarrow> jsnum \<Rightarrow> jsnum" where
  "js_mul NaN b = NaN"
| "js_mul a NaN = NaN"
| "js_mul (Num a) (Num b) = Num (a * b)"
| "js_mul a b =
     (if js_sign a = 0 \<or> js_sign b = 0 then NaN else js_inf (js_sign a * js_sign b))"

fun js_div :: "jsnum \<Rightarrow> jsnum \<Rightarrow> jsnum" where
  "js_div NaN b = NaN"
| "js_div a NaN = NaN"
| "js_div (Num a) (Num b) =
     (if b \<noteq> 0 then Num (a / b) else if a = 0 then NaN else js_inf (js_sign (Num a)))"
| "js_div (Num a) b = Num 0"
| "js_div a (Num b) = js_inf (js_sign a * (if b < 0 then - 1 else 1))"
| "js_div a b = NaN"

text \<open>Truthiness of a number, and \<open>a || b\<close> on numbers: \<open>0\<close> and \<open>NaN\<close> are falsy.\<close>

definition js_truthy :: "jsnum \<Rightarrow> bool" where
  "js_truthy a = (a \<noteq> NaN \<and> a \<noteq> Num 0)"

definition js_or :: "jsnum \<Rightarrow> jsnum \<Rightarrow> jsnum" where
  "js_or a b = (if js_truthy a then a else b)"

section \<open>Configuration\<close>

definition COINS :: "string list" where
  "COINS =
    [''BTC-USD'', ''ETH-USD'', ''SOL-USD'', ''MATIC-USD'', ''AVAX-USD'',
     ''LINK-USD'', ''DOT-USD'', ''ATOM-USD'', ''DOGE-USD'', ''SHIB-USD'',
     ''UNI-USD'', ''AAVE-USD'', ''CRV-USD'', ''SUSHI-USD'', ''MANA-USD'',
     ''SAND-USD'', ''AXS-USD'', ''ENJ-USD'', ''GRT-USD'', ''ALGO-USD'',
     ''LTC-USD'', ''1INCH-USD'', ''BAT-USD'', ''COMP-USD'']"

definition MOVE_THRESHOLD :: jsnum where
  "MOVE_THRESHOLD = Num 2"

definition LAG_WINDOW :: int where
  "LAG_WINDOW = 300000"

section \<open>Data storage\<close>

text \<open>
  Field names carry a prefix where two objects of the source share a field name
  (\<open>price\<close>, \<open>changePercent\<close>, \<open>timestamp\<close>). Times are the integers
  of \<open>Date.now()\<close>, counters are naturals.
\<close>

record price_state =
  ps_price :: jsnum
  ps_change :: jsnum
  ps_changePercent :: jsnum
  ps_lastUpdate :: int

datatype direction = Pump | Dump

record follower_response =
  fr_lagTime :: int
  fr_changePercent :: jsnum
  fr_magnitudeRatio :: jsnum

record leader_event =
  ev_timestamp :: int
  ev_leader :: string
  ev_price :: jsnum
  ev_changePercent :: jsnum
  ev_direction :: direction
  followersResponded :: "string \<rightharpoonup> follower_response"

record relation =
  lagTimes :: "int list"
  magnitudeRatios :: "jsnum list"
  successfulFollows :: nat
  missedFollows :: nat
  avgLag :: real
  avgMagnitude :: jsnum
  followRate :: real

record statistics =
  totalTicks :: nat
  divergenceEvents :: nat
  startTime :: int


type_synonym matrix = "(string \<times> (string \<times> relation) list) list"

record market_data =
  prices :: "string \<rightharpoonup> price_state"
  priceHistory :: "string \<rightharpoonup> jsnum list"
  leaderEvents :: "leader_event list"
  causalityMatrix :: matrix
  statistics :: statistics
  pendingUpdates :: "string \<rightharpoonup> price_state"

definition emptyRelation :: relation where
  "emptyRelation =
     \<lparr>lagTimes = [], magnitudeRatios = [], successfulFollows = 0, missedFollows = 0,
      avgLag = 0, avgMagnitude = Num 0, followRate = 0\<rparr>"

definition initialPrice :: price_state where
  "initialPrice = \<lparr>ps_price = Num 0, ps_change = Num 0, ps_changePercent = Num 0, ps_lastUpdate = 0\<rparr>"

text \<open>\<open>initializeData\<close>, run once on the fresh globals; \<open>now\<close> is the \<open>Date.now()\<close> of start-up.\<close>

definition initializeData :: "int \<Rightarrow> market_data" where
  "initializeData now =
     \<lparr>prices = map_of (map (\<lambda>coin. (coin, initialPrice)) COINS),
      priceHistory = map_of (map (\<lambda>coin. (coin, [])) COINS),
      leaderEvents = [],
      causalityMatrix =
        map (\<lambda>coin. (coin, map (\<lambda>follower. (follower, emptyRelation))
                              (filter (\<lambda>follower. coin \<noteq> follower) COINS))) COINS,
      statistics = \<lparr>totalTicks = 0, divergenceEvents = 0, startTime = now\<rparr>,
      pendingUpdates = Map.empty\<rparr>"

section \<open>Tick processing\<close>

text \<open>
  Reading a property of \<open>undefined\<close> throws a \<open>TypeError\<close>; the state at the throw is
  the state the caller's \<open>catch\<close> is left with.
\<close>

datatype error = TypeError

definition lookupRelation :: "matrix \<Rightarrow> string \<Rightarrow> string \<Rightarrow> relation option" where
  "lookupRelation m leader follower =
     (case map_of m leader of None \<Rightarrow> None | Some row \<Rightarrow> map_of row follower)"

definition updateRelation :: "matrix \<Rightarrow> string \<Rightarrow> string \<Rightarrow> (relation \<Rightarrow> relation) \<Rightarrow> matrix" where
  "updateRelation m leader follower f =
     AList.map_entry leader (AList.map_entry follower f) m"

text \<open>The success branch of the callback, on the relation of the pair.\<close>

definition recordFollow :: "int \<Rightarrow> jsnum \<Rightarrow> relation \<Rightarrow> relation" where
  "recordFollow lagTime magnitudeRatio relationship =
     (let lags = lagTimes relationship @ [lagTime];
          ratios = magnitudeRatios relationship @ [magnitudeRatio];
          follows = successfulFollows relationship + 1
      in relationship
           \<lparr>lagTimes := lags,
            magnitudeRatios := ratios,
            successfulFollows := follows,
            avgLag := real_of_int (foldl (+) 0 lags) / real (length lags),
            avgMagnitude := js_div (foldl js_add (Num 0) ratios) (Num (real (length ratios))),
            followRate := real follows / real (follows + missedFollows relationship)\<rparr>)"

text \<open>
  The callback of \<open>marketData.leaderEvents.forEach\<close>: it returns the event (with its
  \<open>followersResponded\<close>) and the state as the iteration leaves them, or the error when
  the pair has no relation, which is thrown before the iteration writes anything.
\<close>

definition checkFollower ::
  "string \<Rightarrow> jsnum \<Rightarrow> int \<Rightarrow> leader_event \<Rightarrow> market_data \<Rightarrow> error + (leader_event \<times> market_data)" where
  "checkFollower coin changePercent timestamp leaderEvent md =
     (if ev_leader leaderEvent \<noteq> coin then
        (let lagTime = timestamp - ev_timestamp leaderEvent in
         if lagTime < LAG_WINDOW \<and> js_ge (js_abs changePercent) (Num (5 / 1000)) then
           (let sameDirection =
                  (js_gt changePercent (Num 0) \<and> js_gt (ev_changePercent leaderEvent) (Num 0)) \<or>
                  (js_lt changePercent (Num 0) \<and> js_lt (ev_changePercent leaderEvent) (Num 0))
            in case lookupRelation (causalityMatrix md) (ev_leader leaderEvent) coin of
                 None \<Rightarrow> Inl TypeError
               | Some _ \<Rightarrow>
                   if sameDirection then
                     (let magnitudeRatio = js_abs (js_div changePercent (ev_changePercent leaderEvent))
                      in Inr (leaderEvent
                                \<lparr>followersResponded := (followersResponded leaderEvent)
                                   (coin \<mapsto> \<lparr>fr_lagTime = lagTime, fr_changePercent = changePercent,
                                              fr_magnitudeRatio = magnitudeRatio\<rparr>)\<rparr>,
                              md\<lparr>causalityMatrix :=
                                   updateRelation (causalityMatrix md) (ev_leader leaderEvent) coin
                                     (recordFollow lagTime magnitudeRatio)\<rparr>))
                   else
                     Inr (leaderEvent,
                          md\<lparr>causalityMatrix :=
                               updateRelation (causalityMatrix md) (ev_leader leaderEvent) coin
                                 (\<lambda>r. r\<lparr>missedFollows := missedFollows r + 1\<rparr>),
                             statistics := (statistics md)
                               \<lparr>divergenceEvents := divergenceEvents (statistics md) + 1\<rparr>\<rparr>))
         else Inr (leaderEvent, md))
      else Inr (leaderEvent, md))"

text \<open>
  The \<open>forEach\<close> itself, over the events still to visit: the events come back in their
  order, those visited as the callback left them. An error stops the walk.
\<close>

fun checkFollowers ::
  "string \<Rightarrow> jsnum \<Rightarrow> int \<Rightarrow> leader_event list \<Rightarrow> market_data \<Rightarrow>
   error option \<times> leader_event list \<times> market_data" where
  "checkFollowers coin changePercent timestamp [] md = (None, [], md)"
| "checkFollowers coin changePercent timestamp (leaderEvent # rest) md =
     (case checkFollower coin changePercent timestamp leaderEvent md of
        Inl e \<Rightarrow> (Some e, leaderEvent # rest, md)
      | Inr (leaderEvent', md') \<Rightarrow>
          (case checkFollowers coin changePercent timestamp rest md' of
             (r, rest', md'') \<Rightarrow> (r, leaderEvent' # rest', md'')))"

text \<open>
  A parsed message as the handler and \<open>processTickerUpdate\<close> read it:
  \<open>tk_type\<close> is its \<open>type\<close>, \<open>product_id\<close> the property key that
  \<open>ticker.product_id\<close> converts to, and \<open>tk_price\<close> the value of
  \<open>parseFloat(ticker.price)\<close>, which is \<open>NaN\<close> for a missing or non-numeric field.
\<close>

record ticker =
  tk_type :: string
  product_id :: string
  tk_price :: jsnum

text \<open>
  \<open>processTickerUpdate\<close>, section by section as the source comments them. First
  ``Update price data'': the new \<open>PriceState\<close> from the one stored.
\<close>

definition updatePriceData :: "price_state \<Rightarrow> jsnum \<Rightarrow> int \<Rightarrow> price_state" where
  "updatePriceData old price timestamp =
     (let oldPrice = js_or (ps_price old) price;
          priceChange = js_sub price oldPrice;
          changePercent =
            (if js_gt oldPrice (Num 0) then js_mul (js_div priceChange oldPrice) (Num 100)
             else Num 0)
      in \<lparr>ps_price = price, ps_change = priceChange,
          ps_changePercent = changePercent, ps_lastUpdate = timestamp\<rparr>)"

text \<open>``Store price history (limit to 1000 entries)'': \<open>push\<close>, then \<open>shift\<close> when too long.\<close>

definition storePriceHistory :: "jsnum list \<Rightarrow> jsnum \<Rightarrow> jsnum list" where
  "storePriceHistory history price =
     (let pushed = history @ [price]
      in if length pushed > 1000 then tl pushed else pushed)"

text \<open>``Detect leader events'': the new event is pushed and old events are cleaned in the same branch.\<close>

definition detectLeaderEvent ::
  "string \<Rightarrow> jsnum \<Rightarrow> jsnum \<Rightarrow> int \<Rightarrow> leader_event list \<Rightarrow> leader_event list" where
  "detectLeaderEvent coin price changePercent timestamp events =
     (if js_ge (js_abs changePercent) MOVE_THRESHOLD then
        (let leaderEvent =
               \<lparr>ev_timestamp = timestamp, ev_leader = coin, ev_price = price,
                ev_changePercent = changePercent,
                ev_direction = (if js_gt changePercent (Num 0) then Pump else Dump),
                followersResponded = Map.empty\<rparr>
         in filter (\<lambda>e. timestamp - ev_timestamp e < LAG_WINDOW) (events @ [leaderEvent]))
      else events)"

text \<open>
  The whole function; \<open>timestamp\<close> is its \<open>Date.now()\<close>. The result is the error
  thrown, if any, and the state on leaving the function.
\<close>

definition processTickerUpdate :: "ticker \<Rightarrow> int \<Rightarrow> market_data \<Rightarrow> error option \<times> market_data" where
  "processTickerUpdate tk timestamp md =
     (let coin = product_id tk; price = tk_price tk in
      case prices md coin of
        None \<Rightarrow> (Some TypeError, md)
      | Some old \<Rightarrow>
          (let newState = updatePriceData old price timestamp;
               changePercent = ps_changePercent newState;
               md1 = md\<lparr>prices := (prices md)(coin \<mapsto> newState)\<rparr>
           in case priceHistory md1 coin of
                None \<Rightarrow> (Some TypeError, md1)
              | Some history \<Rightarrow>
                  (let md2 = md1\<lparr>priceHistory :=
                                   (priceHistory md1)(coin \<mapsto> storePriceHistory history price)\<rparr>;
                       md3 = md2\<lparr>leaderEvents :=
                                   detectLeaderEvent coin price changePercent timestamp (leaderEvents md2)\<rparr>
                   in case checkFollowers coin changePercent timestamp (leaderEvents md3) md3 of
                        (Some e, events, md4) \<Rightarrow> (Some e, md4\<lparr>leaderEvents := events\<rparr>)
                      | (None, events, md4) \<Rightarrow>
                          (None,
                           md4\<lparr>leaderEvents := events,
                               statistics := (statistics md4)
                                 \<lparr>totalTicks := totalTicks (statistics md4) + 1\<rparr>,
                               pendingUpdates := (pendingUpdates md4)(coin \<mapsto> newState)\<rparr>))))"

text \<open>
  The \<open>message\<close> handler of the feed. \<open>Unparseable\<close> is a payload on which
  \<open>JSON.parse\<close> throws (or yields \<open>null\<close>, whose \<open>type\<close> cannot be read):
  the \<open>catch\<close> logs it. Whatever \<open>processTickerUpdate\<close> throws is caught and
  logged in the same way, and the state stays as the throw left it.
\<close>

datatype ws_message = Unparseable | Parsed ticker

definition onMessage :: "ws_message \<Rightarrow> int \<Rightarrow> market_data \<Rightarrow> market_data" where
  "onMessage data timestamp md =
     (case data of
        Unparseable \<Rightarrow> md
      | Parsed tk \<Rightarrow>
          if tk_type tk = ''ticker'' then snd (processTickerUpdate tk timestamp md) else md)"

text \<open>A run of the handler over the messages received, each with the clock at its arrival.\<close>

fun run :: "(ws_message \<times> int) list \<Rightarrow> market_data \<Rightarrow> market_data" where
  "run [] md = md"
| "run ((data, timestamp) # rest) md = run rest (onMessage data timestamp md)"

section \<open>Built-ins of the read side\<close>

text \<open>
  \<open>parseInt\<close> with no radix, on the string its argument converts to: leading white
  space is skipped (the ASCII white space here), then a sign, then \<open>0x\<close> or \<open>0X\<close> switches
  to radix 16, and the longest run of digits is read; no digit at all gives \<open>NaN\<close>,
  which is \<open>None\<close>. The value is the exact integer.
\<close>

definition isWhiteSpace :: "char \<Rightarrow> bool" where
  "isWhiteSpace c = (c \<in> set [CHR 0x09, CHR 0x0A, CHR 0x0B, CHR 0x0C, CHR 0x0D, CHR '' ''])"

definition digitValue :: "char \<Rightarrow> nat" where
  "digitValue c =
     (let n = of_char c :: nat in
      if 48 \<le> n \<and> n \<le> 57 then n - 48
      else if 97 \<le> n \<and> n \<le> 122 then n - 87
      else if 65 \<le> n \<and> n \<le> 90 then n - 55
      else 36)"

definition parseDigits :: "nat \<Rightarrow> string \<Rightarrow> nat option" where
  "parseDigits radix s =
     (let z = takeWhile (\<lambda>c. digitValue c < radix) s
      in if z = [] then None else Some (foldl (\<lambda>acc c. acc * radix + digitValue c) 0 z))"

definition stripSign :: "string \<Rightarrow> int \<times> string" where
  "stripSign s =
     (case s of
        c # rest \<Rightarrow> if c = CHR ''-'' then (- 1, rest) else if c = CHR ''+'' then (1, rest) else (1, s)
      | [] \<Rightarrow> (1, s))"

definition parseInt :: "string \<Rightarrow> int option" where
  "parseInt inputString =
     (case stripSign (dropWhile isWhiteSpace inputString) of
        (sign, s) \<Rightarrow>
          (case (if take 2 s = ''0x'' \<or> take 2 s = ''0X'' then parseDigits 16 (drop 2 s)
                 else parseDigits 10 s) of
             None \<Rightarrow> None
           | Some mathInt \<Rightarrow> Some (sign * int mathInt)))"

text \<open>
  \<open>Number.prototype.toFixed\<close>: the sign, then the integer \<open>n\<close> nearest to
  \<open>x * 10^f\<close> (the larger one on a tie), printed with a point before its last
  \<open>f\<close> digits. From \<open>10^21\<close> on JavaScript prints the exponent notation of the
  double instead; the model prints the digits there too.
\<close>

fun showNat :: "nat \<Rightarrow> string" where
  "showNat n =
     (if n < 10 then [char_of (48 + n)] else showNat (n div 10) @ [char_of (48 + n mod 10)])"

definition toFixedReal :: "nat \<Rightarrow> real \<Rightarrow> string" where
  "toFixedReal f x =
     (let s = (if x < 0 then [CHR ''-''] else []);
          n = nat \<lfloor>\<bar>x\<bar> * 10 ^ f + 1 / 2\<rfloor>;
          m = showNat n;
          padded = replicate (f + 1 - length m) CHR ''0'' @ m
      in if f = 0 then s @ m
         else s @ take (length padded - f) padded @ [CHR ''.''] @ drop (length padded - f) padded)"

fun toFixed :: "nat \<Rightarrow> jsnum \<Rightarrow> string" where
  "toFixed f NaN = ''NaN''"
| "toFixed f PInf = ''Infinity''"
| "toFixed f NInf = ''-Infinity''"
| "toFixed f (Num x) = toFixedReal f x"

section \<open>REST API endpoints\<close>





record matrix_entry =
  me_followRate :: real
  me_avgLag :: real
  me_avgMagnitude :: jsnum
  me_sampleSize :: nat

record matrix_response =
  mr_matrix :: "(string \<times> (string \<times> matrix_entry) list) list"
  mr_leaderEvents :: "leader_event list"

definition matrixEntryOf :: "relation \<Rightarrow> matrix_entry" where
  "matrixEntryOf rel =
     \<lparr>me_followRate = followRate rel, me_avgLag = avgLag rel,
      me_avgMagnitude = avgMagnitude rel, me_sampleSize = length (lagTimes rel)\<rparr>"

definition getMatrix :: "market_data \<Rightarrow> matrix_response" where
  "getMatrix md =
     \<lparr>mr_matrix =
        map (\<lambda>(leader, row).
               (leader,
                map (\<lambda>(follower, rel). (follower, matrixEntryOf rel))
                    (filter (\<lambda>(follower, rel). successfulFollows rel > 0) row)))
            (causalityMatrix md),
      mr_leaderEvents = leaderEvents md\<rparr>"

text \<open>
  The two nested \<open>Object.keys(...).forEach\<close> of the best-pairs and CSV handlers visit
  the relations leader by leader, each row in its order.
\<close>

definition relationsOf :: "matrix \<Rightarrow> (string \<times> string \<times> relation) list" where
  "relationsOf m =
     concat (map (\<lambda>(leader, row). map (\<lambda>(follower, rel). (leader, follower, rel)) row) m)"

record best_pair =
  bp_leader :: string
  bp_follower :: string
  bp_followRate :: real
  bp_avgLag :: real
  bp_avgMagnitude :: jsnum
  bp_sampleSize :: nat
  bp_successfulFollows :: nat
  bp_missedFollows :: nat

record best_pairs_response =
  bp_pairs :: "best_pair list"
  bp_totalPairsAnalyzed :: nat

text \<open>\<open>parseInt(req.query.minSamples) || 10\<close>; an absent parameter is \<open>undefined\<close>.\<close>

definition minSampleSizeOf :: "string option \<Rightarrow> int" where
  "minSampleSizeOf minSamples =
     (case minSamples of
        None \<Rightarrow> 10
      | Some s \<Rightarrow> (case parseInt s of None \<Rightarrow> 10 | Some n \<Rightarrow> if n = 0 then 10 else n))"

definition bestPairOf :: "string \<times> string \<times> relation \<Rightarrow> best_pair" where
  "bestPairOf p =
     (case p of (leader, follower, rel) \<Rightarrow>
        \<lparr>bp_leader = leader, bp_follower = follower, bp_followRate = followRate rel,
         bp_avgLag = avgLag rel, bp_avgMagnitude = avgMagnitude rel,
         bp_sampleSize = length (lagTimes rel),
         bp_successfulFollows = successfulFollows rel, bp_missedFollows = missedFollows rel\<rparr>)"

definition qualifies :: "int \<Rightarrow> string \<times> string \<times> relation \<Rightarrow> bool" where
  "qualifies minSampleSize p =
     (case p of (leader, follower, rel) \<Rightarrow>
        (let totalEvents = successfulFollows rel + missedFollows rel
         in int totalEvents \<ge> minSampleSize \<and> followRate rel > 6 / 10))"

text \<open>
  \<open>Array.prototype.sort\<close> is stable, and so is the insertion sort \<open>sort_key\<close>;
  the comparator \<open>b.followRate - a.followRate\<close> orders by falling follow rate.
\<close>

definition getBestPairs :: "string option \<Rightarrow> market_data \<Rightarrow> best_pairs_response" where
  "getBestPairs minSamples md =
     (let minSampleSize = minSampleSizeOf minSamples;
          pairs = map bestPairOf (filter (qualifies minSampleSize) (relationsOf (causalityMatrix md)));
          sorted = sort_key (\<lambda>p. - bp_followRate p) pairs
      in \<lparr>bp_pairs = take 20 sorted, bp_totalPairsAnalyzed = length sorted\<rparr>)"

definition csvHeader :: string where
  "csvHeader =
     ''Leader,Follower,Successful_Follows,Missed_Follows,Follow_Rate,Avg_Lag_MS,Avg_Magnitude_Ratio,Sample_Size'' @ [CHR 0x0A]"

definition csvRow :: "string \<times> string \<times> relation \<Rightarrow> string" where
  "csvRow p =
     (case p of (leader, follower, rel) \<Rightarrow>
        leader @ '','' @ follower @ '','' @ showNat (successfulFollows rel) @ '','' @
        showNat (missedFollows rel) @ '','' @ toFixedReal 3 (followRate rel) @ '','' @
        toFixedReal 0 (avgLag rel) @ '','' @ toFixed 3 (avgMagnitude rel) @ '','' @
        showNat (length (lagTimes rel)) @ [CHR 0x0A])"

definition getCsv :: "market_data \<Rightarrow> string" where
  "getCsv md =
     csvHeader @
     concat (map csvRow
       (filter (\<lambda>(leader, follower, rel). successfulFollows rel + missedFollows rel > 0)
          (relationsOf (causalityMatrix md))))"




section \<open>Vocabulary of the properties\<close>

text \<open>
  The prices that arrived for a coin, in arrival order: those of the messages that reach
  \<open>processTickerUpdate\<close> with that \<open>product_id\<close>.
\<close>

fun arrivals :: "string \<Rightarrow> (ws_message \<times> int) list \<Rightarrow> jsnum list" where
  "arrivals coin [] = []"
| "arrivals coin ((Unparseable, t) # rest) = arrivals coin rest"
| "arrivals coin ((Parsed tk, t) # rest) =
     (if tk_type tk = ''ticker'' \<and> product_id tk = coin then tk_price tk # arrivals coin rest
      else arrivals coin rest)"

definition mostRecent :: "nat \<Rightarrow> 'a list \<Rightarrow> 'a list" where
  "mostRecent n xs = drop (length xs - n) xs"

text \<open>A relation whose success counter agrees with both of its lists.\<close>

definition relationSound :: "relation \<Rightarrow> bool" where
  "relationSound rel =
     (successfulFollows rel = length (lagTimes rel) \<and>
      successfulFollows rel = length (magnitudeRatios rel))"

definition matrixSound :: "matrix \<Rightarrow> bool" where
  "matrixSound m = (\<forall>p \<in> set (relationsOf m). relationSound (snd (snd p)))"

text \<open>A well-formed ticker message with a price, arriving at a given time.\<close>

definition tick :: "string \<Rightarrow> jsnum \<Rightarrow> int \<Rightarrow> ws_message \<times> int" where
  "tick coin price t = (Parsed \<lparr>tk_type = ''ticker'', product_id = coin, tk_price = price\<rparr>, t)"

text \<open>
  A short run from start-up: BTC moves from 100 to 103 (a leader event, +3 percent), ETH
  follows from 50 to 50.5 (+1 percent, a success) and then falls back to 50.3 (a miss).
\<close>

definition followThenMiss :: "(ws_message \<times> int) list" where
  "followThenMiss =
     [tick ''BTC-USD'' (Num 100) 0, tick ''ETH-USD'' (Num 50) 1, tick ''BTC-USD'' (Num 103) 2,
      tick ''ETH-USD'' (Num (505 / 10)) 3, tick ''ETH-USD'' (Num (503 / 10)) 4]"

text \<open>BTC alone: a first price, then a leader move of +3 percent at time 1.\<close>

definition leaderOnly :: "(ws_message \<times> int) list" where
  "leaderOnly = [tick ''BTC-USD'' (Num 100) 0, tick ''BTC-USD'' (Num 103) 1]"


section \<open>Frame lemmas\<close>

lemma checkFollower_frame:
  assumes "checkFollower coin cp t e md = Inr (e', md')"
  shows "prices md' = prices md \<and> priceHistory md' = priceHistory md \<and>
         leaderEvents md' = leaderEvents md \<and> pendingUpdates md' = pendingUpdates md \<and>
         totalTicks (statistics md') = totalTicks (statistics md)"
  using assms
  by (auto simp: checkFollower_def Let_def split: if_splits option.splits)

lemma checkFollowers_frame:
  assumes "checkFollowers coin cp t es md = (r, es', md')"
  shows "prices md' = prices md \<and> priceHistory md' = priceHistory md \<and>
         leaderEvents md' = leaderEvents md \<and> pendingUpdates md' = pendingUpdates md \<and>
         totalTicks (statistics md') = totalTicks (statistics md)"
  using assms
proof (induction es arbitrary: md r es' md')
  case Nil
  then show ?case by simp
next
  case (Cons e es)
  show ?case
  proof (cases "checkFollower coin cp t e md")
    case (Inl err)
    with Cons.prems show ?thesis by simp
  next
    case (Inr p)
    obtain e1 md1 where p: "p = (e1, md1)" by (cases p)
    obtain r2 es2 md2 where rec: "checkFollowers coin cp t es md1 = (r2, es2, md2)"
      by (cases "checkFollowers coin cp t es md1")
    from Cons.prems Inr p rec have "md' = md2" by simp
    with Cons.IH[OF rec] checkFollower_frame[OF Inr[unfolded p]] show ?thesis by simp
  qed
qed

lemma processTickerUpdate_prices:
  "prices (snd (processTickerUpdate tk timestamp md)) =
     (case prices md (product_id tk) of
        None \<Rightarrow> prices md
      | Some old \<Rightarrow> (prices md)(product_id tk \<mapsto> updatePriceData old (tk_price tk) timestamp))"
  by (auto simp: processTickerUpdate_def Let_def split: option.splits prod.splits
           dest!: checkFollowers_frame)

lemma processTickerUpdate_priceHistory:
  "priceHistory (snd (processTickerUpdate tk timestamp md)) =
     (case prices md (product_id tk) of
        None \<Rightarrow> priceHistory md
      | Some old \<Rightarrow>
          (case priceHistory md (product_id tk) of
             None \<Rightarrow> priceHistory md
           | Some history \<Rightarrow>
               (priceHistory md)(product_id tk \<mapsto> storePriceHistory history (tk_price tk))))"
  by (auto simp: processTickerUpdate_def Let_def split: option.splits prod.splits
           dest!: checkFollowers_frame)

lemma processTickerUpdate_known:
  "(prices (snd (processTickerUpdate tk timestamp md)) coin = None) = (prices md coin = None)"
  by (simp add: processTickerUpdate_prices split: option.splits)

lemma initializeData_known:
  "coin \<in> set COINS \<Longrightarrow> prices (initializeData now) coin = Some initialPrice"
  "coin \<in> set COINS \<Longrightarrow> priceHistory (initializeData now) coin = Some []"
  by (simp_all add: initializeData_def map_of_map_restrict)

lemma lookupRelation_updateRelation:
  "lookupRelation (updateRelation m leader follower f) l c =
     (if l = leader \<and> c = follower then map_option f (lookupRelation m l c)
      else lookupRelation m l c)"
  by (auto simp: lookupRelation_def updateRelation_def AList.map_of_map_entry split: option.splits)

section \<open>The price history\<close>

lemma mostRecent_push:
  "mostRecent 1000 (xs @ [p]) = storePriceHistory (mostRecent 1000 xs) p"
proof (cases "length xs \<ge> 1000")
  case True
  define k where "k = length xs - 1000"
  have k: "Suc (length xs) - 1000 = Suc k" "Suc k \<le> length xs" "length (drop k xs) = 1000"
    using True by (simp_all add: k_def)
  have nonempty: "drop k xs \<noteq> []" using k(3) by auto
  have "mostRecent 1000 (xs @ [p]) = drop (Suc k) xs @ [p]"
    using k(1,2) by (simp add: mostRecent_def)
  moreover have "tl (drop k xs @ [p]) = drop (Suc k) xs @ [p]"
    using nonempty by (simp add: tl_drop drop_Suc)
  ultimately show ?thesis
    using k(3) by (simp add: storePriceHistory_def mostRecent_def k_def[symmetric])
next
  case False
  then show ?thesis by (simp add: storePriceHistory_def mostRecent_def)
qed

lemma onMessage_priceHistory:
  assumes "prices md coin \<noteq> None" and "priceHistory md coin = Some (mostRecent 1000 seen)"
  shows "prices (onMessage data t md) coin \<noteq> None \<and>
         priceHistory (onMessage data t md) coin =
           Some (mostRecent 1000 (seen @ arrivals coin [(data, t)]))"
proof (cases data)
  case Unparseable
  with assms show ?thesis by (simp add: onMessage_def)
next
  case (Parsed tk)
  show ?thesis
  proof (cases "tk_type tk = ''ticker''")
    case False
    with assms Parsed show ?thesis by (simp add: onMessage_def)
  next
    case True
    have known: "prices (snd (processTickerUpdate tk t md)) coin \<noteq> None"
      using assms(1) by (simp add: processTickerUpdate_known)
    have "priceHistory (snd (processTickerUpdate tk t md)) coin =
            Some (mostRecent 1000 (seen @ arrivals coin [(Parsed tk, t)]))"
    proof (cases "product_id tk = coin")
      case same: True
      from assms(1) same obtain old where "prices md (product_id tk) = Some old" by auto
      with assms(2) same True show ?thesis
        by (simp add: processTickerUpdate_priceHistory mostRecent_push)
    next
      case other: False
      with assms(2) True show ?thesis
        by (simp add: processTickerUpdate_priceHistory split: option.splits)
    qed
    with known Parsed True show ?thesis by (simp add: onMessage_def)
  qed
qed

lemma arrivals_Cons: "arrivals coin (m # msgs) = arrivals coin [m] @ arrivals coin msgs"
proof -
  obtain data t where m: "m = (data, t)" by (cases m)
  show ?thesis unfolding m by (cases data) simp_all
qed

lemma run_priceHistory:
  assumes "prices md coin \<noteq> None" and "priceHistory md coin = Some (mostRecent 1000 seen)"
  shows "priceHistory (run msgs md) coin = Some (mostRecent 1000 (seen @ arrivals coin msgs))"
  using assms
proof (induction msgs arbitrary: md seen)
  case Nil
  then show ?case by simp
next
  case (Cons m msgs)
  obtain data t where m: "m = (data, t)" by (cases m)
  from onMessage_priceHistory[OF Cons.prems, of data t]
  have step: "prices (onMessage data t md) coin \<noteq> None"
    "priceHistory (onMessage data t md) coin = Some (mostRecent 1000 (seen @ arrivals coin [m]))"
    unfolding m by simp_all
  from Cons.IH[OF step] show ?case
    unfolding m by (simp add: arrivals_Cons[of coin "(data, t)" msgs])
qed

text \<open>
  C5. From start-up and after any sequence of messages, the price history of every coin of
  the universe holds at most 1000 entries, and they are exactly the most recent 1000 prices
  that arrived for that coin, in arrival order: the oldest entry leaves first.
\<close>

theorem C5_history_bound:
  assumes "coin \<in> set COINS"
  shows "\<exists>history. priceHistory (run msgs (initializeData now)) coin = Some history \<and>
           length history \<le> 1000 \<and>
           history = mostRecent 1000 (arrivals coin msgs)"
proof -
  have "priceHistory (run msgs (initializeData now)) coin =
          Some (mostRecent 1000 ([] @ arrivals coin msgs))"
    by (rule run_priceHistory) (simp_all add: initializeData_known assms mostRecent_def)
  then show ?thesis by (simp add: mostRecent_def)
qed

lemma arrivals_replicate:
  "arrivals coin (replicate n (tick coin price t)) = replicate n price"
  by (induction n) (simp_all add: tick_def)

text \<open>
  Three ETH prices are kept as they came; of 1001 BTC prices, a 7 followed by a thousand
  times 1, the 7 has left the history.
\<close>

theorem C5_history_bound_witness:
  "''ETH-USD'' \<in> set COINS \<and>
   priceHistory (run followThenMiss (initializeData 0)) ''ETH-USD'' =
     Some [Num 50, Num (505 / 10), Num (503 / 10)] \<and>
   ''BTC-USD'' \<in> set COINS \<and>
   priceHistory
     (run (tick ''BTC-USD'' (Num 7) 0 # replicate 1000 (tick ''BTC-USD'' (Num 1) 1)) (initializeData 0))
     ''BTC-USD'' = Some (replicate 1000 (Num 1))"
proof -
  have eth: "''ETH-USD'' \<in> set COINS" and btc: "''BTC-USD'' \<in> set COINS"
    by (simp_all add: COINS_def)
  have seven: "arrivals ''BTC-USD'' [tick ''BTC-USD'' (Num 7) 0] = [Num 7]"
    by (simp add: tick_def)
  have "arrivals ''BTC-USD'' (tick ''BTC-USD'' (Num 7) 0 # replicate 1000 (tick ''BTC-USD'' (Num 1) 1)) =
          Num 7 # replicate 1000 (Num 1)"
    unfolding arrivals_Cons[of _ _ "replicate 1000 (tick ''BTC-USD'' (Num 1) 1)"] seven
      arrivals_replicate by simp
  then have evicted:
    "mostRecent 1000
       (arrivals ''BTC-USD'' (tick ''BTC-USD'' (Num 7) 0 # replicate 1000 (tick ''BTC-USD'' (Num 1) 1))) =
     replicate 1000 (Num 1)"
    by (simp add: mostRecent_def)
  from C5_history_bound[OF eth, of followThenMiss 0]
  have first: "priceHistory (run followThenMiss (initializeData 0)) ''ETH-USD'' =
                 Some [Num 50, Num (505 / 10), Num (503 / 10)]"
    by (simp add: followThenMiss_def tick_def mostRecent_def)
  from C5_history_bound[OF btc,
      of "tick ''BTC-USD'' (Num 7) 0 # replicate 1000 (tick ''BTC-USD'' (Num 1) 1)" 0]
  have second: "priceHistory
     (run (tick ''BTC-USD'' (Num 7) 0 # replicate 1000 (tick ''BTC-USD'' (Num 1) 1)) (initializeData 0))
     ''BTC-USD'' = Some (replicate 1000 (Num 1))"
    unfolding evicted by simp
  from eth btc first second show ?thesis by simp
qed

section \<open>The price change of a tick\<close>



section \<open>Direction of a follower\<close>

text \<open>
  C7. When the callback evaluates a tick of \<open>coin\<close> against a leader event of another
  coin, with a lag below \<open>LAG_WINDOW\<close> and a change of at least 0.005 percent in
  absolute value, and the tick goes the other way than the leader, then the relation of the
  pair keeps its \<open>successfulFollows\<close> (and its lists), its \<open>missedFollows\<close> grows
  by one, and so does the global \<open>divergenceEvents\<close>.
\<close>

theorem C7_directionality:
  assumes "ev_leader leaderEvent \<noteq> coin"
    and "timestamp - ev_timestamp leaderEvent < LAG_WINDOW"
    and "js_ge (js_abs changePercent) (Num (5 / 1000))"
    and "(js_gt changePercent (Num 0) \<and> js_lt (ev_changePercent leaderEvent) (Num 0)) \<or>
         (js_lt changePercent (Num 0) \<and> js_gt (ev_changePercent leaderEvent) (Num 0))"
    and "lookupRelation (causalityMatrix md) (ev_leader leaderEvent) coin = Some rel"
  shows "\<exists>md' rel'.
           checkFollower coin changePercent timestamp leaderEvent md = Inr (leaderEvent, md') \<and>
           lookupRelation (causalityMatrix md') (ev_leader leaderEvent) coin = Some rel' \<and>
           successfulFollows rel' = successfulFollows rel \<and>
           lagTimes rel' = lagTimes rel \<and>
           magnitudeRatios rel' = magnitudeRatios rel \<and>
           missedFollows rel' = missedFollows rel + 1 \<and>
           divergenceEvents (statistics md') = divergenceEvents (statistics md) + 1"
proof -
  have notSame:
    "\<not> ((js_gt changePercent (Num 0) \<and> js_gt (ev_changePercent leaderEvent) (Num 0)) \<or>
        (js_lt changePercent (Num 0) \<and> js_lt (ev_changePercent leaderEvent) (Num 0)))"
    using assms(4)
    by (cases changePercent; cases "ev_changePercent leaderEvent") (auto simp: js_gt_def)
  show ?thesis
    using assms(1,2,3,5) notSame
    by (simp add: checkFollower_def Let_def lookupRelation_updateRelation)
qed

text \<open>
  The counters after the run \<open>followThenMiss\<close>: its last tick is ETH falling while the
  BTC pump is live.
\<close>

lemma followThenMiss_counters:
  "map_option (\<lambda>r. (successfulFollows r, missedFollows r))
     (lookupRelation (causalityMatrix (run followThenMiss (initializeData 0))) ''BTC-USD'' ''ETH-USD'') =
     Some (1, 1) \<and>
   divergenceEvents (statistics (run followThenMiss (initializeData 0))) = 1"
  by code_simp

theorem C7_directionality_witness:
  "(\<exists>md' rel'.
     checkFollower ''ETH-USD'' (Num (- 1)) 4
       \<lparr>ev_timestamp = 2, ev_leader = ''BTC-USD'', ev_price = Num 103, ev_changePercent = Num 3,
        ev_direction = Pump, followersResponded = Map.empty\<rparr>
       (initializeData 0) =
     Inr (\<lparr>ev_timestamp = 2, ev_leader = ''BTC-USD'', ev_price = Num 103, ev_changePercent = Num 3,
           ev_direction = Pump, followersResponded = Map.empty\<rparr>, md') \<and>
     lookupRelation (causalityMatrix md') ''BTC-USD'' ''ETH-USD'' = Some rel' \<and>
     successfulFollows rel' = 0 \<and> lagTimes rel' = [] \<and> magnitudeRatios rel' = [] \<and>
     missedFollows rel' = 1 \<and> divergenceEvents (statistics md') = 1) \<and>
   map_option (\<lambda>r. (successfulFollows r, missedFollows r))
     (lookupRelation (causalityMatrix (run followThenMiss (initializeData 0))) ''BTC-USD'' ''ETH-USD'') =
     Some (1, 1) \<and>
   divergenceEvents (statistics (run followThenMiss (initializeData 0))) = 1"
proof -
  have rel: "lookupRelation (causalityMatrix (initializeData 0)) ''BTC-USD'' ''ETH-USD'' =
               Some emptyRelation"
    by code_simp
  have stats: "divergenceEvents (statistics (initializeData 0)) = 0"
    by (simp add: initializeData_def)
  from C7_directionality[of
      "\<lparr>ev_timestamp = 2, ev_leader = ''BTC-USD'', ev_price = Num 103, ev_changePercent = Num 3,
        ev_direction = Pump, followersResponded = Map.empty\<rparr>"
      "''ETH-USD''" 4 "Num (- 1)" "initializeData 0" emptyRelation]
  have "\<exists>md' rel'.
     checkFollower ''ETH-USD'' (Num (- 1)) 4
       \<lparr>ev_timestamp = 2, ev_leader = ''BTC-USD'', ev_price = Num 103, ev_changePercent = Num 3,
        ev_direction = Pump, followersResponded = Map.empty\<rparr>
       (initializeData 0) =
     Inr (\<lparr>ev_timestamp = 2, ev_leader = ''BTC-USD'', ev_price = Num 103, ev_changePercent = Num 3,
           ev_direction = Pump, followersResponded = Map.empty\<rparr>, md') \<and>
     lookupRelation (causalityMatrix md') ''BTC-USD'' ''ETH-USD'' = Some rel' \<and>
     successfulFollows rel' = 0 \<and> lagTimes rel' = [] \<and> magnitudeRatios rel' = [] \<and>
     missedFollows rel' = 1 \<and> divergenceEvents (statistics md') = 1"
    using rel stats by (simp add: LAG_WINDOW_def js_ge_def js_gt_def emptyRelation_def)
  with followThenMiss_counters show ?thesis by blast
qed

section \<open>Success counters and sample sizes\<close>

lemma relationsOf_iff:
  "(leader, follower, rel) \<in> set (relationsOf m) \<longleftrightarrow>
     (\<exists>row. (leader, row) \<in> set m \<and> (follower, rel) \<in> set row)"
  by (auto simp: relationsOf_def)

lemma set_map_entry:
  "(k', v') \<in> set (AList.map_entry k f xs) \<Longrightarrow>
     (k', v') \<in> set xs \<or> (k' = k \<and> (\<exists>v. (k, v) \<in> set xs \<and> v' = f v))"
  by (induction xs) (auto split: if_splits)

lemma relationsOf_updateRelation:
  assumes "(l, c, rel) \<in> set (relationsOf (updateRelation m leader follower f))"
  shows "(l, c, rel) \<in> set (relationsOf m) \<or>
         (\<exists>rel0. (l, c, rel0) \<in> set (relationsOf m) \<and> rel = f rel0)"
proof -
  from assms obtain row where row: "(l, row) \<in> set (AList.map_entry leader (AList.map_entry follower f) m)"
    and mem: "(c, rel) \<in> set row"
    by (auto simp: relationsOf_iff updateRelation_def)
  from set_map_entry[OF row] show ?thesis
  proof
    assume "(l, row) \<in> set m"
    with mem show ?thesis by (auto simp: relationsOf_iff)
  next
    assume "l = leader \<and> (\<exists>v. (leader, v) \<in> set m \<and> row = AList.map_entry follower f v)"
    then obtain v where v: "l = leader" "(leader, v) \<in> set m" "row = AList.map_entry follower f v"
      by auto
    from mem v(3) set_map_entry[of c rel follower f v]
    have "(c, rel) \<in> set v \<or> (\<exists>rel0. (c, rel0) \<in> set v \<and> rel = f rel0)" by auto
    with v(1,2) show ?thesis by (auto simp: relationsOf_iff)
  qed
qed

lemma matrixSound_updateRelation:
  assumes "matrixSound m" and "\<And>rel. relationSound rel \<Longrightarrow> relationSound (f rel)"
  shows "matrixSound (updateRelation m leader follower f)"
  unfolding matrixSound_def
proof
  fix p assume p: "p \<in> set (relationsOf (updateRelation m leader follower f))"
  obtain l c rel where pe: "p = (l, c, rel)" by (cases p)
  from relationsOf_updateRelation[OF p[unfolded pe]] assms
  show "relationSound (snd (snd p))" unfolding pe matrixSound_def by force
qed

lemma relationSound_recordFollow: "relationSound rel \<Longrightarrow> relationSound (recordFollow lag ratio rel)"
  by (simp add: relationSound_def recordFollow_def Let_def)

lemma relationSound_missed:
  "relationSound (rel\<lparr>missedFollows := n\<rparr>) = relationSound rel"
  by (simp add: relationSound_def)

lemma checkFollower_sound:
  assumes "checkFollower coin cp t e md = Inr (e', md')" and "matrixSound (causalityMatrix md)"
  shows "matrixSound (causalityMatrix md')"
  using assms
  by (auto simp: checkFollower_def Let_def relationSound_recordFollow relationSound_missed
           intro!: matrixSound_updateRelation split: if_splits option.splits)

lemma checkFollowers_sound:
  assumes "checkFollowers coin cp t es md = (r, es', md')" and "matrixSound (causalityMatrix md)"
  shows "matrixSound (causalityMatrix md')"
  using assms
proof (induction es arbitrary: md r es' md')
  case Nil
  then show ?case by simp
next
  case (Cons e es)
  show ?case
  proof (cases "checkFollower coin cp t e md")
    case (Inl err)
    with Cons.prems show ?thesis by simp
  next
    case (Inr p)
    obtain e1 md1 where p: "p = (e1, md1)" by (cases p)
    obtain r2 es2 md2 where rec: "checkFollowers coin cp t es md1 = (r2, es2, md2)"
      by (cases "checkFollowers coin cp t es md1")
    from Cons.prems(1) Inr p rec have "md' = md2" by simp
    with Cons.IH[OF rec checkFollower_sound[OF Inr[unfolded p] Cons.prems(2)]]
    show ?thesis by simp
  qed
qed

lemma processTickerUpdate_sound:
  assumes "matrixSound (causalityMatrix md)"
  shows "matrixSound (causalityMatrix (snd (processTickerUpdate tk timestamp md)))"
  using assms
  by (auto simp: processTickerUpdate_def Let_def split: option.splits prod.splits
           dest!: checkFollowers_sound)

lemma onMessage_sound:
  "matrixSound (causalityMatrix md) \<Longrightarrow> matrixSound (causalityMatrix (onMessage data t md))"
  by (simp add: onMessage_def processTickerUpdate_sound split: ws_message.splits)

lemma run_sound:
  "matrixSound (causalityMatrix md) \<Longrightarrow> matrixSound (causalityMatrix (run msgs md))"
  by (induction msgs arbitrary: md) (auto simp: onMessage_sound)

lemma initializeData_sound: "matrixSound (causalityMatrix (initializeData now))"
  by (auto simp: matrixSound_def initializeData_def relationsOf_iff relationSound_def emptyRelation_def)

lemma bestPairs_origin:
  assumes "p \<in> set (bp_pairs (getBestPairs minSamples md))"
  shows "\<exists>r \<in> set (relationsOf (causalityMatrix md)).
           qualifies (minSampleSizeOf minSamples) r \<and> p = bestPairOf r"
proof -
  from assms have "p \<in> set (sort_key (\<lambda>p. - bp_followRate p)
      (map bestPairOf (filter (qualifies (minSampleSizeOf minSamples)) (relationsOf (causalityMatrix md)))))"
    by (auto simp: getBestPairs_def Let_def dest: in_set_takeD)
  then show ?thesis by auto
qed

text \<open>The best pairs that the short run \<open>followThenMiss\<close> leaves, read with \<open>minSamples=1\<close>.\<close>

lemma followThenMiss_bestPairs:
  "bp_pairs (getBestPairs (Some ''1'') (run followThenMiss (initializeData 0))) =
     [\<lparr>bp_leader = ''BTC-USD'', bp_follower = ''ETH-USD'', bp_followRate = 1,
       bp_avgLag = 1, bp_avgMagnitude = Num (1 / 3), bp_sampleSize = 1,
       bp_successfulFollows = 1, bp_missedFollows = 1\<rparr>]"
  by code_simp

text \<open>
  C9. From start-up and after any sequence of messages, every relation of the matrix has
  \<open>successfulFollows\<close> equal to the length of \<open>lagTimes\<close> and to the length of
  \<open>magnitudeRatios\<close>; so the \<open>sampleSize\<close> that the matrix snapshot computes for a
  relation, the last column of its CSV row, and the \<open>sampleSize\<close> every best pair
  carries, are its \<open>successfulFollows\<close>.
\<close>

theorem C9_sample_size:
  "(\<forall>(leader, follower, rel) \<in> set (relationsOf (causalityMatrix (run msgs (initializeData now)))).
      successfulFollows rel = length (lagTimes rel) \<and>
      successfulFollows rel = length (magnitudeRatios rel) \<and>
      me_sampleSize (matrixEntryOf rel) = successfulFollows rel \<and>
      csvRow (leader, follower, rel) =
        leader @ '','' @ follower @ '','' @ showNat (successfulFollows rel) @ '','' @
        showNat (missedFollows rel) @ '','' @ toFixedReal 3 (followRate rel) @ '','' @
        toFixedReal 0 (avgLag rel) @ '','' @ toFixed 3 (avgMagnitude rel) @ '','' @
        showNat (successfulFollows rel) @ [CHR 0x0A]) \<and>
   (\<forall>p \<in> set (bp_pairs (getBestPairs minSamples (run msgs (initializeData now)))).
      bp_sampleSize p = bp_successfulFollows p)"
proof -
  let ?md = "run msgs (initializeData now)"
  have sound: "matrixSound (causalityMatrix ?md)"
    by (rule run_sound) (rule initializeData_sound)
  have first: "\<forall>(leader, follower, rel) \<in> set (relationsOf (causalityMatrix ?md)).
      successfulFollows rel = length (lagTimes rel) \<and>
      successfulFollows rel = length (magnitudeRatios rel) \<and>
      me_sampleSize (matrixEntryOf rel) = successfulFollows rel \<and>
      csvRow (leader, follower, rel) =
        leader @ '','' @ follower @ '','' @ showNat (successfulFollows rel) @ '','' @
        showNat (missedFollows rel) @ '','' @ toFixedReal 3 (followRate rel) @ '','' @
        toFixedReal 0 (avgLag rel) @ '','' @ toFixed 3 (avgMagnitude rel) @ '','' @
        showNat (successfulFollows rel) @ [CHR 0x0A]"
  proof (clarify)
    fix leader follower rel
    assume "(leader, follower, rel) \<in> set (relationsOf (causalityMatrix ?md))"
    with sound have "relationSound rel" unfolding matrixSound_def by force
    then show "successfulFollows rel = length (lagTimes rel) \<and>
      successfulFollows rel = length (magnitudeRatios rel) \<and>
      me_sampleSize (matrixEntryOf rel) = successfulFollows rel \<and>
      csvRow (leader, follower, rel) =
        leader @ '','' @ follower @ '','' @ showNat (successfulFollows rel) @ '','' @
        showNat (missedFollows rel) @ '','' @ toFixedReal 3 (followRate rel) @ '','' @
        toFixedReal 0 (avgLag rel) @ '','' @ toFixed 3 (avgMagnitude rel) @ '','' @
        showNat (successfulFollows rel) @ [CHR 0x0A]"
      by (simp add: relationSound_def matrixEntryOf_def csvRow_def)
  qed
  have second: "\<forall>p \<in> set (bp_pairs (getBestPairs minSamples ?md)). bp_sampleSize p = bp_successfulFollows p"
  proof
    fix p assume "p \<in> set (bp_pairs (getBestPairs minSamples ?md))"
    from bestPairs_origin[OF this] obtain r where
      r: "r \<in> set (relationsOf (causalityMatrix ?md))" "p = bestPairOf r" by auto
    obtain l c rel where re: "r = (l, c, rel)" by (cases r)
    from sound r(1) have "relationSound rel" unfolding re matrixSound_def by force
    then show "bp_sampleSize p = bp_successfulFollows p"
      unfolding r(2) re by (simp add: bestPairOf_def relationSound_def)
  qed
  from first second show ?thesis by blast
qed

theorem C9_sample_size_witness:
  "map bp_sampleSize (bp_pairs (getBestPairs (Some ''1'') (run followThenMiss (initializeData 0)))) = [1] \<and>
   map bp_successfulFollows (bp_pairs (getBestPairs (Some ''1'') (run followThenMiss (initializeData 0)))) = [1]"
  using C9_sample_size[of followThenMiss 0 "Some ''1''"]
  by (simp add: followThenMiss_bestPairs)

section \<open>The follow rate that the reads return\<close>

lemma followThenMiss_matrix:
  "map_of (mr_matrix (getMatrix (run followThenMiss (initializeData 0)))) ''BTC-USD'' =
     Some [(''ETH-USD'',
            \<lparr>me_followRate = 1, me_avgLag = 1, me_avgMagnitude = Num (1 / 3), me_sampleSize = 1\<rparr>)]"
  by code_simp

lemma followThenMiss_csv:
  "getCsv (run followThenMiss (initializeData 0)) =
     csvHeader @ ''BTC-USD,ETH-USD,1,1,1.000,1,0.333,1'' @ [CHR 0x0A]"
  by code_simp

text \<open>
  C2. After the run \<open>followThenMiss\<close> the pair (BTC-USD, ETH-USD) has one success and
  one miss, so \<open>successfulFollows / (successfulFollows + missedFollows)\<close> is \<open>1 / 2\<close>. The
  best-pairs query (with \<open>minSamples=1\<close>), the matrix snapshot and the CSV export all
  return a follow rate of \<open>1\<close>: the field was last written by the success branch of the
  callback, the miss branch changes only the counters, and no handler recomputes it.
\<close>

theorem C2_follow_rate_after_miss:
  "map (\<lambda>p. (bp_successfulFollows p, bp_missedFollows p, bp_followRate p,
             real (bp_successfulFollows p) / real (bp_successfulFollows p + bp_missedFollows p)))
     (bp_pairs (getBestPairs (Some ''1'') (run followThenMiss (initializeData 0)))) =
   [(1, 1, 1, 1 / 2)] \<and>
   map_of (mr_matrix (getMatrix (run followThenMiss (initializeData 0)))) ''BTC-USD'' =
     Some [(''ETH-USD'',
            \<lparr>me_followRate = 1, me_avgLag = 1, me_avgMagnitude = Num (1 / 3), me_sampleSize = 1\<rparr>)] \<and>
   getCsv (run followThenMiss (initializeData 0)) =
     csvHeader @ ''BTC-USD,ETH-USD,1,1,1.000,1,0.333,1'' @ [CHR 0x0A]"
  by (simp add: followThenMiss_bestPairs followThenMiss_matrix followThenMiss_csv)

section \<open>Pruning of leader events\<close>

lemma checkFollower_event:
  assumes "checkFollower coin cp t e md = Inr (e', md')"
  shows "ev_timestamp e' = ev_timestamp e"
  using assms
  by (auto simp: checkFollower_def Let_def split: if_splits option.splits)

lemma checkFollowers_timestamps:
  assumes "checkFollowers coin cp t es md = (r, es', md')"
  shows "map ev_timestamp es' = map ev_timestamp es"
  using assms
proof (induction es arbitrary: md r es' md')
  case Nil
  then show ?case by simp
next
  case (Cons e es)
  show ?case
  proof (cases "checkFollower coin cp t e md")
    case (Inl err)
    with Cons.prems show ?thesis by auto
  next
    case (Inr p)
    obtain e1 md1 where p: "p = (e1, md1)" by (cases p)
    obtain r2 es2 md2 where rec: "checkFollowers coin cp t es md1 = (r2, es2, md2)"
      by (cases "checkFollowers coin cp t es md1")
    from Cons.prems Inr p rec have "es' = e1 # es2" by auto
    with Cons.IH[OF rec] checkFollower_event[OF Inr[unfolded p]] show ?thesis by simp
  qed
qed

lemma processTickerUpdate_timestamps:
  assumes "prices md (product_id tk) = Some old"
    and "priceHistory md (product_id tk) = Some history"
  shows "map ev_timestamp (leaderEvents (snd (processTickerUpdate tk timestamp md))) =
         map ev_timestamp
           (detectLeaderEvent (product_id tk) (tk_price tk)
              (ps_changePercent (updatePriceData old (tk_price tk) timestamp)) timestamp
              (leaderEvents md))"
  using assms
  by (auto simp: processTickerUpdate_def Let_def split: option.splits prod.splits
           dest!: checkFollowers_timestamps)

lemma detectLeaderEvent_timestamps:
  "map ev_timestamp (detectLeaderEvent coin price cp timestamp events) =
     (if js_ge (js_abs cp) MOVE_THRESHOLD
      then filter (\<lambda>t0. timestamp - t0 < LAG_WINDOW) (map ev_timestamp events @ [timestamp])
      else map ev_timestamp events)"
  by (simp add: detectLeaderEvent_def Let_def filter_map comp_def LAG_WINDOW_def)

text \<open>
  The claim C1 as stated fails: a leader event of time 1 is still in the list after an
  ETH tick processed at time 400000, which is no leader tick.
\<close>

theorem C1_stale_event_counterexample:
  "map ev_timestamp
     (leaderEvents (run (leaderOnly @ [tick ''ETH-USD'' (Num 50) 400000]) (initializeData 0))) = [1] \<and>
   totalTicks (statistics
     (run (leaderOnly @ [tick ''ETH-USD'' (Num 50) 400000]) (initializeData 0))) = 3 \<and>
   LAG_WINDOW \<le> 400000 - 1"
  by code_simp

text \<open>
  C1, amended. A tick on a known coin whose change is a leader move
  (\<open>|changePercent| \<ge> MOVE_THRESHOLD\<close>) leaves in the list exactly the earlier events
  with \<open>timestamp - event.timestamp < LAG_WINDOW\<close>, in their order, followed by the new
  event: no event of age \<open>LAG_WINDOW\<close> or more remains. Any other tick removes nothing:
  the list keeps all its events. On every tick the callback leaves an event of age
  \<open>LAG_WINDOW\<close> or more, and the state, untouched.
\<close>

theorem C1_pruning_on_leader_ticks:
  assumes "prices md (product_id tk) = Some old"
    and "priceHistory md (product_id tk) = Some history"
    and "changePercent = ps_changePercent (updatePriceData old (tk_price tk) timestamp)"
    and "md' = snd (processTickerUpdate tk timestamp md)"
  shows "(if js_ge (js_abs changePercent) MOVE_THRESHOLD
          then map ev_timestamp (leaderEvents md') =
                 filter (\<lambda>t0. timestamp - t0 < LAG_WINDOW)
                   (map ev_timestamp (leaderEvents md) @ [timestamp]) \<and>
               (\<forall>e \<in> set (leaderEvents md'). timestamp - ev_timestamp e < LAG_WINDOW)
          else map ev_timestamp (leaderEvents md') = map ev_timestamp (leaderEvents md)) \<and>
         (\<forall>e m. \<not> timestamp - ev_timestamp e < LAG_WINDOW \<longrightarrow>
                checkFollower (product_id tk) changePercent timestamp e m = Inr (e, m))"
proof -
  have ts: "map ev_timestamp (leaderEvents md') =
        (if js_ge (js_abs changePercent) MOVE_THRESHOLD
         then filter (\<lambda>t0. timestamp - t0 < LAG_WINDOW) (map ev_timestamp (leaderEvents md) @ [timestamp])
         else map ev_timestamp (leaderEvents md))"
    unfolding assms(3,4) processTickerUpdate_timestamps[OF assms(1,2)]
    by (rule detectLeaderEvent_timestamps)
  have live: "\<forall>e \<in> set (leaderEvents md'). timestamp - ev_timestamp e < LAG_WINDOW"
    if "js_ge (js_abs changePercent) MOVE_THRESHOLD"
  proof
    fix e assume "e \<in> set (leaderEvents md')"
    then have "ev_timestamp e \<in> set (map ev_timestamp (leaderEvents md'))" by simp
    with ts that show "timestamp - ev_timestamp e < LAG_WINDOW" by (auto simp: LAG_WINDOW_def)
  qed
  have skip: "\<forall>e m. \<not> timestamp - ev_timestamp e < LAG_WINDOW \<longrightarrow>
                checkFollower (product_id tk) changePercent timestamp e m = Inr (e, m)"
    by (simp add: checkFollower_def Let_def)
  from ts live skip show ?thesis by simp
qed

theorem C1_pruning_on_leader_ticks_witness:
  "map ev_timestamp (leaderEvents (run leaderOnly (initializeData 0))) = [1] \<and>
   map ev_timestamp (leaderEvents (snd (processTickerUpdate
      \<lparr>tk_type = ''ticker'', product_id = ''BTC-USD'', tk_price = Num 110\<rparr> 400000
      (run leaderOnly (initializeData 0))))) = [400000]"
proof -
  let ?tk = "\<lparr>tk_type = ''ticker'', product_id = ''BTC-USD'', tk_price = Num 110\<rparr>"
  let ?old = "\<lparr>ps_price = Num 103, ps_change = Num 3, ps_changePercent = Num 3, ps_lastUpdate = 1\<rparr>"
  have stored: "prices (run leaderOnly (initializeData 0)) (product_id ?tk) = Some ?old"
    by code_simp
  have history: "priceHistory (run leaderOnly (initializeData 0)) (product_id ?tk) =
                   Some [Num 100, Num 103]"
    by code_simp
  have events: "map ev_timestamp (leaderEvents (run leaderOnly (initializeData 0))) = [1]"
    by code_simp
  have leader: "js_ge (js_abs (ps_changePercent (updatePriceData ?old (tk_price ?tk) 400000)))
                  MOVE_THRESHOLD"
    by (simp add: updatePriceData_def Let_def js_or_def js_truthy_def js_sub_def js_gt_def
          js_ge_def MOVE_THRESHOLD_def)
  from C1_pruning_on_leader_ticks[OF stored history refl refl, of 400000] leader events
  show ?thesis by (simp add: LAG_WINDOW_def)
qed

section \<open>Messages that are not processed\<close>











section \<open>Reading twice\<close>




section \<open>Best pairs\<close>

lemma bestPairs_total:
  assumes "p \<in> set (bp_pairs (getBestPairs minSamples md))"
  shows "minSampleSizeOf minSamples \<le> int (bp_successfulFollows p + bp_missedFollows p) \<and>
         6 / 10 < bp_followRate p"
proof -
  from bestPairs_origin[OF assms] obtain r where
    r: "qualifies (minSampleSizeOf minSamples) r" "p = bestPairOf r" by auto
  obtain l c rel where re: "r = (l, c, rel)" by (cases r)
  from r show ?thesis unfolding re by (simp add: qualifies_def bestPairOf_def Let_def)
qed

lemma parseInt_examples:
  "parseInt ''0'' = Some 0" "parseInt ''10'' = Some 10" "parseInt ''abc'' = None"
  by (simp_all add: parseInt_def stripSign_def isWhiteSpace_def parseDigits_def digitValue_def)

lemma bestPairs_threshold:
  "minSampleSizeOf a = minSampleSizeOf b \<Longrightarrow> getBestPairs a md = getBestPairs b md"
  by (simp add: getBestPairs_def)









section \<open>The default of minSamples\<close>

lemma followThenMiss_default:
  "bp_pairs (getBestPairs None (run followThenMiss (initializeData 0))) = []"
  by code_simp

text \<open>
  C10. The threshold of the best-pairs query is 10 when \<open>minSamples\<close> is absent, when
  \<open>parseInt\<close> gives \<open>NaN\<close> for it, and when it parses to 0. In particular
  \<open>minSamples=0\<close> answers exactly as no parameter at all does, and every pair it
  returns has at least 10 events.
\<close>

theorem C10_min_samples_default:
  "minSampleSizeOf None = 10 \<and>
   (parseInt s = None \<longrightarrow> minSampleSizeOf (Some s) = 10) \<and>
   (parseInt s = Some 0 \<longrightarrow> minSampleSizeOf (Some s) = 10) \<and>
   parseInt ''0'' = Some 0 \<and>
   getBestPairs (Some ''0'') md = getBestPairs None md \<and>
   (\<forall>p \<in> set (bp_pairs (getBestPairs (Some ''0'') md)).
      10 \<le> bp_successfulFollows p + bp_missedFollows p)"
proof -
  have absent: "minSampleSizeOf None = 10"
    by (simp add: minSampleSizeOf_def)
  have nan: "parseInt s = None \<longrightarrow> minSampleSizeOf (Some s) = 10"
    by (simp add: minSampleSizeOf_def)
  have zero: "parseInt s = Some 0 \<longrightarrow> minSampleSizeOf (Some s) = 10"
    by (simp add: minSampleSizeOf_def)
  have literal: "minSampleSizeOf (Some ''0'') = 10"
    by (simp add: minSampleSizeOf_def parseInt_examples)
  have same: "getBestPairs (Some ''0'') md = getBestPairs None md"
    by (rule bestPairs_threshold) (simp add: literal absent)
  have filtered: "\<forall>p \<in> set (bp_pairs (getBestPairs (Some ''0'') md)).
      10 \<le> bp_successfulFollows p + bp_missedFollows p"
  proof
    fix p assume "p \<in> set (bp_pairs (getBestPairs (Some ''0'') md))"
    from bestPairs_total[OF this] show "10 \<le> bp_successfulFollows p + bp_missedFollows p"
      unfolding literal by linarith
  qed
  from absent nan zero parseInt_examples(1) same filtered show ?thesis by blast
qed

theorem C10_min_samples_default_witness:
  "parseInt ''abc'' = None \<and> minSampleSizeOf (Some ''abc'') = 10 \<and>
   parseInt ''0'' = Some 0 \<and> minSampleSizeOf (Some ''0'') = 10 \<and>
   bp_pairs (getBestPairs (Some ''0'') (run followThenMiss (initializeData 0))) = []"
  using C10_min_samples_default[of "''abc''" "run followThenMiss (initializeData 0)"]
    C10_min_samples_default[of "''0''" "run followThenMiss (initializeData 0)"]
  by (simp add: parseInt_examples followThenMiss_default)

end
